theory Spec2Isabelle
  imports Complex_Main "HOL-Library.Multiset" "HOL-Library.Log_Nat"
begin

section \<open>JavaScript values\<close>

text \<open>
  The client is dynamically typed: a raw record is whatever the JSON body of a response
  holds. A number is a double of the language: \<open>NaN\<close>, one of the two infinities, or
  the rational a finite double holds. The negative zero is outside the model. A string
  is a list of code units below 256.
\<close>

datatype jsnum = NaN | PInf | NInf | Fin rat

text \<open>
  The double nearest to a rational, ties to the even significand: 53 bits of significand,
  the smallest exponent \<open>-1022\<close>, and an infinity from \<open>2 ^ 1024\<close> on.
\<close>

definition pow2 :: "int \<Rightarrow> rat" where
  "pow2 k = (if 0 \<le> k then 2 ^ nat k else 1 / 2 ^ nat (- k))"

text \<open>The \<open>k\<close> with \<open>2 ^ k \<le> a < 2 ^ (k + 1)\<close>, for a positive \<open>a\<close>.\<close>

definition floorLog2 :: "rat \<Rightarrow> int" where
  "floorLog2 a =
     (case quotient_of a of
        (p, d) \<Rightarrow>
          (let k = bitlen p - bitlen d
           in if pow2 k \<le> a then k else k - 1))"

definition roundHalfEven :: "rat \<Rightarrow> int" where
  "roundHalfEven x =
     (let f = \<lfloor>x\<rfloor>; r = x - of_int f
      in if r < 1 / 2 then f else if 1 / 2 < r then f + 1 else if even f then f else f + 1)"

definition roundDouble :: "rat \<Rightarrow> jsnum" where
  "roundDouble q =
     (if q = 0 then Fin 0
      else
        (let a = \<bar>q\<bar>;
             e = max (floorLog2 a) (- 1022);
             ulp = pow2 (e - 52);
             r = of_int (roundHalfEven (a / ulp)) * ulp
         in if pow2 1024 \<le> r then (if 0 < q then PInf else NInf)
            else Fin (if 0 < q then r else - r)))"

datatype jsval =
    JUndefined
  | JNull
  | JBool bool
  | JNum jsnum
  | JStr string
  | JArr "jsval list"
  | JObj "(string \<times> jsval) list"

text \<open>The canonical record of the client.\<close>

record expense =
  id_f :: jsval
  title :: jsval
  category :: jsval
  amount :: jsval
  date :: jsval
  timestamp :: jsval
  note_f :: jsval

text \<open>
  What the engine and the machine supply: the conversion of a string to a number
  (\<open>Number(s)\<close>); the string an array or a plain object converts to; \<open>Date.parse\<close> on
  every string that is neither a calendar date \<open>YYYY-MM-DD\<close> nor an instant
  \<open>YYYY-MM-DDTHH:mm:ss.sssZ\<close>; the offset of local time from UTC in milliseconds at
  a given instant; the text of the \<open>TypeError\<close> for a call of something that is not a
  function, given the callee, and for a read of a property of \<open>null\<close> or \<open>undefined\<close>,
  given the value and the property; and the order in which \<open>Array.prototype.sort\<close>
  leaves an array when its comparator is not consistent.
\<close>

record env =
  strToNumber :: "string \<Rightarrow> jsnum"
  objToString :: "jsval \<Rightarrow> string"
  parseOther :: "string \<Rightarrow> int option"
  localTZA :: "int \<Rightarrow> int"
  notAFunction :: "string \<Rightarrow> string"
  cannotRead :: "string \<Rightarrow> string \<Rightarrow> string"
  sortOther :: "expense list \<Rightarrow> expense list"

text \<open>An exception carries the text of its \<open>message\<close>.\<close>

datatype exn = Thrown string

definition typeError :: "env \<Rightarrow> string \<Rightarrow> exn" where
  "typeError en callee = Thrown (notAFunction en callee)"

fun truthy :: "jsval \<Rightarrow> bool" where
  "truthy JUndefined = False"
| "truthy JNull = False"
| "truthy (JBool b) = b"
| "truthy (JNum n) = (n \<noteq> NaN \<and> n \<noteq> Fin 0)"
| "truthy (JStr s) = (s \<noteq> [])"
| "truthy (JArr xs) = True"
| "truthy (JObj kvs) = True"

text \<open>\<open>a || b\<close>\<close>

definition jsOr :: "jsval \<Rightarrow> jsval \<Rightarrow> jsval" where
  "jsOr a b = (if truthy a then a else b)"

text \<open>
  \<open>v.k\<close> for the property names the client reads; none of them is a property of an
  array, a string, a number or a boolean. Every read in the source is guarded by the
  truthiness of \<open>v\<close>, so the read of a property of \<open>null\<close> or \<open>undefined\<close> does not occur.
\<close>

fun getProp :: "jsval \<Rightarrow> string \<Rightarrow> jsval" where
  "getProp (JObj kvs) k = (case map_of kvs k of None \<Rightarrow> JUndefined | Some v \<Rightarrow> v)"
| "getProp v k = JUndefined"

text \<open>\<open>typeof v === 'object'\<close>\<close>

fun typeofObject :: "jsval \<Rightarrow> bool" where
  "typeofObject JNull = True"
| "typeofObject (JArr xs) = True"
| "typeofObject (JObj kvs) = True"
| "typeofObject v = False"

text \<open>\<open>Number(v)\<close>\<close>

fun toNumber :: "env \<Rightarrow> jsval \<Rightarrow> jsnum" where
  "toNumber en JUndefined = NaN"
| "toNumber en JNull = Fin 0"
| "toNumber en (JBool b) = (if b then Fin 1 else Fin 0)"
| "toNumber en (JNum n) = n"
| "toNumber en (JStr s) = strToNumber en s"
| "toNumber en v = strToNumber en (objToString en v)"

text \<open>
  \<open>v.split('T')[0]\<close> for a truthy \<open>v\<close>, which the source names \<open>callee\<close> less its
  \<open>.split\<close>; a value that is not a string has no \<open>split\<close>.
\<close>

fun splitT0 :: "env \<Rightarrow> string \<Rightarrow> jsval \<Rightarrow> exn + jsval" where
  "splitT0 en callee (JStr s) = Inr (JStr (takeWhile (\<lambda>c. c \<noteq> CHR ''T'') s))"
| "splitT0 en callee v = Inl (typeError en callee)"

section \<open>The normalizer\<close>

text \<open>
  The callback of \<open>.map\<close> in \<open>fetchExpenses\<close> (and in the reload of \<open>handleAdd\<close>).
  The callback reads the clock, \<open>new Date().toISOString()\<close>, in two places: \<open>nowDate\<close>
  is what it reads for the date, \<open>nowStamp\<close> what it reads for the timestamp.
\<close>

definition mapExpense :: "env \<Rightarrow> string \<Rightarrow> string \<Rightarrow> jsval \<Rightarrow> exn + expense" where
  "mapExpense en nowDate nowStamp e =
     (case (if truthy (getProp e ''expenseDate'')
            then splitT0 en ''expense.expenseDate.split'' (getProp e ''expenseDate'')
            else Inr (JStr (take 10 nowDate))) of
        Inl x \<Rightarrow> Inl x
      | Inr d \<Rightarrow> Inr \<lparr>
          id_f = getProp e ''id'',
          title = jsOr (getProp e ''title'') (JStr ''Untitled''),
          category = jsOr (getProp e ''category'') (JStr ''General''),
          amount = jsOr (JNum (toNumber en (getProp e ''amount''))) (JNum (Fin 0)),
          date = d,
          timestamp = jsOr (jsOr (jsOr (getProp e ''timestamp'') (getProp e ''timeStamp''))
                                 (getProp e ''expenseDate'')) (JStr nowStamp),
          note_f = jsOr (getProp e ''note'') (JStr '''') \<rparr>)"

text \<open>The callback of \<open>.filter\<close>: \<open>expense && expense.id\<close>.\<close>

definition admitted :: "jsval \<Rightarrow> bool" where
  "admitted e = (truthy e \<and> truthy (getProp e ''id''))"

text \<open>A canonical record read as the object it is, with its seven keys.\<close>

definition asObject :: "expense \<Rightarrow> jsval" where
  "asObject r = JObj [(''id'', id_f r), (''title'', title r), (''category'', category r),
     (''amount'', amount r), (''date'', date r), (''timestamp'', timestamp r),
     (''note'', note_f r)]"

section \<open>Dates\<close>

text \<open>
  A time value is a number of milliseconds since the epoch, or \<open>None\<close> for the \<open>NaN\<close>
  of an invalid date. Days are counted in the proleptic Gregorian calendar, months from 1.
\<close>

definition daysFromCivil :: "int \<Rightarrow> int \<Rightarrow> int \<Rightarrow> int" where
  "daysFromCivil y m d =
     (let y1 = (if m \<le> 2 then y - 1 else y);
          era = y1 div 400;
          yoe = y1 - era * 400;
          doy = (153 * (if 2 < m then m - 3 else m + 9) + 2) div 5 + d - 1;
          doe = yoe * 365 + yoe div 4 - yoe div 100 + doy
      in era * 146097 + doe - 719468)"

definition civilFromDays :: "int \<Rightarrow> int \<times> int \<times> int" where
  "civilFromDays z =
     (let z1 = z + 719468;
          era = z1 div 146097;
          doe = z1 - era * 146097;
          yoe = (doe - doe div 1460 + doe div 36524 - doe div 146096) div 365;
          doy = doe - (365 * yoe + yoe div 4 - yoe div 100);
          mp = (5 * doy + 2) div 153;
          d = doy - (153 * mp + 2) div 5 + 1;
          m = (if mp < 10 then mp + 3 else mp - 9)
      in (if m \<le> 2 then yoe + era * 400 + 1 else yoe + era * 400, m, d))"

definition msPerDay :: int where
  "msPerDay = 86400000"

definition isLeap :: "int \<Rightarrow> bool" where
  "isLeap y = (if y mod 400 = 0 then True else if y mod 100 = 0 then False else y mod 4 = 0)"

definition daysInMonth :: "int \<Rightarrow> int \<Rightarrow> int" where
  "daysInMonth y m =
     (if m = 2 then (if isLeap y then 29 else 28)
      else if m = 4 \<or> m = 6 \<or> m = 9 \<or> m = 11 then 30 else 31)"

definition isDigit :: "char \<Rightarrow> bool" where
  "isDigit c = (48 \<le> (of_char c :: nat) \<and> (of_char c :: nat) \<le> 57)"

fun digitsVal :: "int \<Rightarrow> string \<Rightarrow> int option" where
  "digitsVal acc [] = Some acc"
| "digitsVal acc (c # cs) =
     (if isDigit c then digitsVal (acc * 10 + (of_char c - 48)) cs else None)"

text \<open>
  \<open>Date.parse\<close> on the date-only form \<open>YYYY-MM-DD\<close> of the language's own date format,
  which is read as midnight UTC. A string in neither of the two forms modelled here is
  left to the engine.
\<close>

definition parseDateOnly :: "string \<Rightarrow> int option" where
  "parseDateOnly s =
     (if length s = 10 \<and> s ! 4 = CHR ''-'' \<and> s ! 7 = CHR ''-'' then
        (case (digitsVal 0 (take 4 s), digitsVal 0 (take 2 (drop 5 s)), digitsVal 0 (drop 8 s)) of
           (Some y, Some m, Some d) \<Rightarrow>
             (if 1 \<le> m \<and> m \<le> 12 \<and> 1 \<le> d \<and> d \<le> daysInMonth y m
              then Some (daysFromCivil y m d * msPerDay) else None)
         | _ \<Rightarrow> None)
      else None)"

text \<open>
  \<open>Date.parse\<close> on the form \<open>YYYY-MM-DDTHH:mm:ss.sssZ\<close>, which \<open>toISOString\<close> writes.
\<close>

definition parseIsoUtc :: "string \<Rightarrow> int option" where
  "parseIsoUtc s =
     (if length s = 24 \<and> s ! 10 = CHR ''T'' \<and> s ! 13 = CHR '':'' \<and> s ! 16 = CHR '':''
         \<and> s ! 19 = CHR ''.'' \<and> s ! 23 = CHR ''Z'' then
        (case (parseDateOnly (take 10 s), digitsVal 0 (take 2 (drop 11 s)),
               digitsVal 0 (take 2 (drop 14 s)), digitsVal 0 (take 2 (drop 17 s)),
               digitsVal 0 (take 3 (drop 20 s))) of
           (Some t, Some h, Some mi, Some sec, Some ms) \<Rightarrow>
             (if h \<le> 23 \<and> mi \<le> 59 \<and> sec \<le> 59
              then Some (t + h * 3600000 + mi * 60000 + sec * 1000 + ms) else None)
         | _ \<Rightarrow> None)
      else None)"

definition dateParse :: "env \<Rightarrow> string \<Rightarrow> int option" where
  "dateParse en s =
     (case parseDateOnly s of
        Some t \<Rightarrow> Some t
      | None \<Rightarrow> (case parseIsoUtc s of Some t \<Rightarrow> Some t | None \<Rightarrow> parseOther en s))"

text \<open>The time value of \<open>new Date(n)\<close> for a number.\<close>

fun timeClip :: "jsnum \<Rightarrow> int option" where
  "timeClip (Fin q) =
     (if \<bar>q\<bar> \<le> 8640000000000000 then Some (if 0 \<le> q then \<lfloor>q\<rfloor> else \<lceil>q\<rceil>) else None)"
| "timeClip n = None"

text \<open>The time value of \<open>new Date(v)\<close>.\<close>

fun newDate :: "env \<Rightarrow> jsval \<Rightarrow> int option" where
  "newDate en (JStr s) = dateParse en s"
| "newDate en (JArr xs) = dateParse en (objToString en (JArr xs))"
| "newDate en (JObj kvs) = dateParse en (objToString en (JObj kvs))"
| "newDate en v = timeClip (toNumber en v)"

fun showNat :: "nat \<Rightarrow> string" where
  "showNat n = (if n < 10 then [char_of (48 + n)] else showNat (n div 10) @ [char_of (48 + n mod 10)])"

declare showNat.simps [simp del]

definition showInt :: "int \<Rightarrow> string" where
  "showInt i = (if i < 0 then CHR ''-'' # showNat (nat (- i)) else showNat (nat i))"

text \<open>\<open>s.padStart(2, '0')\<close>\<close>

definition padStart2 :: "string \<Rightarrow> string" where
  "padStart2 s = replicate (2 - length s) CHR ''0'' @ s"

text \<open>
  The key of \<open>d = new Date(v)\<close>: \<open>d.getFullYear()\<close>, a hyphen and
  \<open>String(d.getMonth() + 1).padStart(2, '0')\<close>, both read in local time.
\<close>

definition monthKey :: "env \<Rightarrow> jsval \<Rightarrow> string" where
  "monthKey en v =
     (case newDate en v of
        None \<Rightarrow> ''NaN-NaN''
      | Some t \<Rightarrow>
          (case civilFromDays ((t + localTZA en t) div msPerDay) of
             (y, m, d) \<Rightarrow> showInt y @ ''-'' @ padStart2 (showInt m)))"

section \<open>Strings\<close>

text \<open>White space and letter case of the code units below 256.\<close>

definition isSpace :: "char \<Rightarrow> bool" where
  "isSpace c = ((of_char c :: nat) \<in> {9, 10, 11, 12, 13, 32, 160})"

definition trim :: "string \<Rightarrow> string" where
  "trim s = rev (dropWhile isSpace (rev (dropWhile isSpace s)))"

definition lowerChar :: "char \<Rightarrow> char" where
  "lowerChar c =
     (let n = (of_char c :: nat)
      in if (65 \<le> n \<and> n \<le> 90) \<or> (192 \<le> n \<and> n \<le> 222 \<and> n \<noteq> 215)
         then char_of (n + 32) else c)"

definition toLowerCase :: "string \<Rightarrow> string" where
  "toLowerCase s = map lowerChar s"

text \<open>\<open>s.includes(q)\<close>\<close>

fun includesStr :: "string \<Rightarrow> string \<Rightarrow> bool" where
  "includesStr [] q = (q = [])"
| "includesStr (c # cs) q = (take (length q) (c # cs) = q \<or> includesStr cs q)"

text \<open>
  \<open>v.toLowerCase()\<close>, where the source names \<open>v\<close> by \<open>name\<close>; only a string has the
  method, and \<open>null\<close> and \<open>undefined\<close> have no properties to read.
\<close>

fun lowerOf :: "env \<Rightarrow> string \<Rightarrow> jsval \<Rightarrow> exn + string" where
  "lowerOf en name (JStr s) = Inr (toLowerCase s)"
| "lowerOf en name JNull = Inl (Thrown (cannotRead en ''null'' ''toLowerCase''))"
| "lowerOf en name JUndefined = Inl (Thrown (cannotRead en ''undefined'' ''toLowerCase''))"
| "lowerOf en name v = Inl (typeError en (name @ ''.toLowerCase''))"
section \<open>Ordering\<close>

text \<open>
  The comparator \<open>(a, b) => new Date(b.timestamp) - new Date(a.timestamp)\<close>;
  \<open>None\<close> is \<open>NaN\<close>. The sort reads the sign of the difference only, which is the
  sign of the exact difference of the two time values.
\<close>

definition compareFn :: "env \<Rightarrow> expense \<Rightarrow> expense \<Rightarrow> int option" where
  "compareFn en a b =
     (case (newDate en (timestamp b), newDate en (timestamp a)) of
        (Some tb, Some ta) \<Rightarrow> Some (tb - ta)
      | _ \<Rightarrow> None)"

text \<open>
  The order the collection is to be in: each record's instant is at least the instant of
  every later record. An invalid date compares false with everything, as \<open>NaN\<close> does.
\<close>

definition tsGe :: "env \<Rightarrow> expense \<Rightarrow> expense \<Rightarrow> bool" where
  "tsGe en a b =
     (case (newDate en (timestamp a), newDate en (timestamp b)) of
        (Some ta, Some tb) \<Rightarrow> tb \<le> ta
      | _ \<Rightarrow> False)"

definition descending :: "env \<Rightarrow> expense list \<Rightarrow> bool" where
  "descending en xs = sorted_wrt (tsGe en) xs"

definition validTs :: "env \<Rightarrow> expense \<Rightarrow> bool" where
  "validTs en e = (newDate en (timestamp e) \<noteq> None)"

text \<open>The stable insertion sort by a comparator, which puts \<open>x\<close> before \<open>y\<close> unless \<open>c x y\<close> is positive.\<close>

definition sortCompare :: "('a \<Rightarrow> 'a \<Rightarrow> int option) \<Rightarrow> 'a \<Rightarrow> 'a \<Rightarrow> int" where
  "sortCompare c x y = (case c x y of None \<Rightarrow> 0 | Some v \<Rightarrow> v)"

fun insertSorted :: "('a \<Rightarrow> 'a \<Rightarrow> int option) \<Rightarrow> 'a \<Rightarrow> 'a list \<Rightarrow> 'a list" where
  "insertSorted c x [] = [x]"
| "insertSorted c x (y # ys) =
     (if sortCompare c x y \<le> 0 then x # y # ys else y # insertSorted c x ys)"

text \<open>
  What the engine makes of an array whose comparator is not consistent: some
  rearrangement of the array. An answer of the parameter that is no rearrangement is not
  the answer of an engine, and the array is taken as it is.
\<close>

definition engineOrder :: "env \<Rightarrow> expense list \<Rightarrow> expense list" where
  "engineOrder en xs = (if mset (sortOther en xs) = mset xs then sortOther en xs else xs)"

text \<open>
  \<open>xs.sort((a, b) => new Date(b.timestamp) - new Date(a.timestamp))\<close>. Where every
  timestamp is a valid date the comparator is the difference of two instants, a consistent
  comparator; the language requires the sort to be stable, which fixes the result, and the
  stable insertion sort computes it. Where a timestamp is not a valid date the comparator
  answers \<open>NaN\<close> for that record, the comparator need not be consistent, and the order is
  what the engine makes of it.
\<close>

definition arraySort :: "env \<Rightarrow> expense list \<Rightarrow> expense list" where
  "arraySort en xs =
     (if list_all (validTs en) xs then foldr (insertSorted (compareFn en)) xs []
      else engineOrder en xs)"

section \<open>Filter engine\<close>

text \<open>The callback of the month filter in \<open>filteredExpenses\<close>.\<close>

definition monthPass :: "env \<Rightarrow> string \<Rightarrow> expense \<Rightarrow> bool" where
  "monthPass en selectedMonth e =
     (if \<not> truthy (date e) then False else monthKey en (date e) = selectedMonth)"

definition monthFiltered :: "env \<Rightarrow> string \<Rightarrow> expense list \<Rightarrow> expense list" where
  "monthFiltered en selectedMonth expenses =
     (if selectedMonth \<noteq> [] then filter (monthPass en selectedMonth) expenses else expenses)"

text \<open>The callback of the search filter; \<open>||\<close> stops at the first field that matches.\<close>

definition textMatch :: "env \<Rightarrow> string \<Rightarrow> expense \<Rightarrow> exn + bool" where
  "textMatch en q e =
     (case lowerOf en ''e.title'' (title e) of
        Inl x \<Rightarrow> Inl x
      | Inr t \<Rightarrow>
          if includesStr t q then Inr True
          else (case lowerOf en ''e.category'' (category e) of
                  Inl x \<Rightarrow> Inl x
                | Inr c \<Rightarrow>
                    if includesStr c q then Inr True
                    else (case lowerOf en ''e.note'' (note_f e) of
                            Inl x \<Rightarrow> Inl x
                          | Inr n \<Rightarrow> Inr (includesStr n q))))"

text \<open>\<open>.filter\<close> with a callback that can throw: the first exception ends it.\<close>

fun filterE :: "('a \<Rightarrow> exn + bool) \<Rightarrow> 'a list \<Rightarrow> exn + 'a list" where
  "filterE p [] = Inr []"
| "filterE p (x # xs) =
     (case p x of
        Inl e \<Rightarrow> Inl e
      | Inr b \<Rightarrow> (case filterE p xs of
                    Inl e \<Rightarrow> Inl e
                  | Inr ys \<Rightarrow> Inr (if b then x # ys else ys)))"

definition searchFiltered :: "env \<Rightarrow> string \<Rightarrow> expense list \<Rightarrow> exn + expense list" where
  "searchFiltered en q filtered = (if q \<noteq> [] then filterE (textMatch en q) filtered else Inr filtered)"

definition filteredExpenses :: "env \<Rightarrow> string \<Rightarrow> string \<Rightarrow> expense list \<Rightarrow> exn + expense list" where
  "filteredExpenses en flt selectedMonth expenses =
     searchFiltered en (toLowerCase (trim flt)) (monthFiltered en selectedMonth expenses)"

section \<open>Aggregator\<close>

text \<open>\<open>a + b\<close> on numbers: the exact sum of two finite doubles, rounded to a double.\<close>

fun jsAdd :: "jsnum \<Rightarrow> jsnum \<Rightarrow> jsnum" where
  "jsAdd (Fin a) (Fin b) = roundDouble (a + b)"
| "jsAdd NaN b = NaN"
| "jsAdd a NaN = NaN"
| "jsAdd PInf NInf = NaN"
| "jsAdd NInf PInf = NaN"
| "jsAdd PInf b = PInf"
| "jsAdd a PInf = PInf"
| "jsAdd NInf b = NInf"
| "jsAdd a NInf = NInf"

text \<open>
  A \<open>Map\<close> with string keys keeps its keys in the order of their first insertion:
  \<open>map.set\<close> replaces the value of a key in place or appends a new key.
\<close>

fun mapSet :: "string \<Rightarrow> jsnum \<Rightarrow> (string \<times> jsnum) list \<Rightarrow> (string \<times> jsnum) list" where
  "mapSet k v [] = [(k, v)]"
| "mapSet k v (p # ps) = (if fst p = k then (k, v) # ps else p # mapSet k v ps)"

text \<open>\<open>map.get(key) || 0\<close>\<close>

definition mapGetOr0 :: "(string \<times> jsnum) list \<Rightarrow> string \<Rightarrow> jsnum" where
  "mapGetOr0 m k =
     (case map_of m k of
        None \<Rightarrow> Fin 0
      | Some n \<Rightarrow> (if truthy (JNum n) then n else Fin 0))"

text \<open>
  \<open>(e.category || 'General').trim() || 'General'\<close>; the receiver of \<open>trim\<close> is truthy,
  and has the method only if it is a string.
\<close>

definition categoryKey :: "env \<Rightarrow> expense \<Rightarrow> exn + string" where
  "categoryKey en e =
     (case jsOr (category e) (JStr ''General'') of
        JStr s \<Rightarrow> Inr (if trim s \<noteq> [] then trim s else ''General'')
      | _ \<Rightarrow> Inl (typeError en ''(e.category || 'General').trim''))"

text \<open>The loop of \<open>categoryAgg\<close> over the filtered records.\<close>

fun categoryLoop :: "env \<Rightarrow> (string \<times> jsnum) list \<Rightarrow> expense list \<Rightarrow> exn + (string \<times> jsnum) list" where
  "categoryLoop en m [] = Inr m"
| "categoryLoop en m (e # es) =
     (case categoryKey en e of
        Inl x \<Rightarrow> Inl x
      | Inr key \<Rightarrow>
          categoryLoop en
            (mapSet key (jsAdd (mapGetOr0 m key) (toNumber en (jsOr (amount e) (JNum (Fin 0))))) m)
            es)"

text \<open>The labels and the data of the category chart.\<close>

definition categoryAgg :: "env \<Rightarrow> expense list \<Rightarrow> exn + string list \<times> jsnum list" where
  "categoryAgg en filtered =
     (case categoryLoop en [] filtered of
        Inl x \<Rightarrow> Inl x
      | Inr m \<Rightarrow> Inr (map fst m, map snd m))"

section \<open>Reconciliation controller\<close>

record state =
  expenses :: "expense list"
  error :: "string option"
  editingId :: jsval
  loading :: bool

definition initialState :: state where
  "initialState = \<lparr> expenses = [], error = None, editingId = JNull, loading = True \<rparr>"

text \<open>
  How a call of the remote service ends: the promise is rejected, with the text that
  \<open>err.response?.data || err.message\<close> renders to, or it is resolved with \<open>response.data\<close>.
\<close>

datatype remote = Rejected string | Resolved jsval

text \<open>\<open>.map\<close> with a callback that can throw.\<close>

fun mapE :: "('a \<Rightarrow> exn + 'b) \<Rightarrow> 'a list \<Rightarrow> exn + 'b list" where
  "mapE f [] = Inr []"
| "mapE f (x # xs) =
     (case f x of
        Inl e \<Rightarrow> Inl e
      | Inr y \<Rightarrow> (case mapE f xs of Inl e \<Rightarrow> Inl e | Inr ys \<Rightarrow> Inr (y # ys)))"

text \<open>
  \<open>.filter(...).map(...)\<close> over the raw records. Every call of the callback of \<open>.map\<close>
  reads the clock anew: \<open>clock\<close> gives, for the record at position \<open>i\<close> among the
  admitted ones, at \<open>2 * i\<close> what it reads for its date and at \<open>2 * i + 1\<close> what it reads
  for its timestamp.
\<close>

definition mapAdmitted :: "env \<Rightarrow> (nat \<Rightarrow> string) \<Rightarrow> jsval list \<Rightarrow> exn + expense list" where
  "mapAdmitted en clock raws =
     mapE (\<lambda>(i, e). mapExpense en (clock (2 * i)) (clock (2 * i + 1)) e)
       (enumerate 0 (filter admitted raws))"

text \<open>
  \<open>data.filter(...).map(...).sort(...)\<close>, as in \<open>fetchExpenses\<close> and in the reload of
  \<open>handleAdd\<close>, where the source names \<open>data\<close> by \<open>name\<close>. Only an array has \<open>filter\<close>.
\<close>

fun mappedExpenses :: "env \<Rightarrow> string \<Rightarrow> (nat \<Rightarrow> string) \<Rightarrow> jsval \<Rightarrow> exn + expense list" where
  "mappedExpenses en name clock (JArr raws) =
     (case mapAdmitted en clock raws of
        Inl x \<Rightarrow> Inl x
      | Inr ms \<Rightarrow> Inr (arraySort en ms))"
| "mappedExpenses en name clock JNull = Inl (Thrown (cannotRead en ''null'' ''filter''))"
| "mappedExpenses en name clock JUndefined = Inl (Thrown (cannotRead en ''undefined'' ''filter''))"
| "mappedExpenses en name clock v = Inl (typeError en (name @ ''.filter''))"

text \<open>The initial load.\<close>

definition fetchExpenses_try :: "env \<Rightarrow> (nat \<Rightarrow> string) \<Rightarrow> remote \<Rightarrow> exn + expense list" where
  "fetchExpenses_try en clock r =
     (case r of
        Rejected d \<Rightarrow> Inl (Thrown d)
      | Resolved data \<Rightarrow> mappedExpenses en ''response.data'' clock data)"

definition fetchExpenses :: "env \<Rightarrow> (nat \<Rightarrow> string) \<Rightarrow> state \<Rightarrow> remote \<Rightarrow> state" where
  "fetchExpenses en clock st r =
     (case fetchExpenses_try en clock r of
        Inl x \<Rightarrow> st\<lparr> error := Some ''Failed to load expenses. Please check if the backend is running.'',
                    expenses := [], loading := False \<rparr>
      | Inr xs \<Rightarrow> st\<lparr> expenses := xs, error := None, loading := False \<rparr>)"

text \<open>
  \<open>response.data && typeof response.data === 'object' &&
  (response.data.id || response.data.expenseId)\<close>, the test of \<open>handleAdd\<close>.
\<close>

definition hasIdentifier :: "jsval \<Rightarrow> bool" where
  "hasIdentifier v =
     (truthy v \<and> typeofObject v \<and> truthy (jsOr (getProp v ''id'') (getProp v ''expenseId'')))"

text \<open>
  The record \<open>handleAdd\<close> builds from a response that carries an identifier; \<open>now\<close> is
  what it reads from the clock.
\<close>

definition addMapped :: "env \<Rightarrow> string \<Rightarrow> jsval \<Rightarrow> jsval \<Rightarrow> exn + expense" where
  "addMapped en now newExpense v =
     (case (if truthy (getProp v ''expenseDate'')
            then splitT0 en ''response.data.expenseDate.split'' (getProp v ''expenseDate'')
            else Inr (getProp newExpense ''date'')) of
        Inl x \<Rightarrow> Inl x
      | Inr d \<Rightarrow> Inr \<lparr>
          id_f = jsOr (getProp v ''id'') (getProp v ''expenseId''),
          title = jsOr (getProp v ''title'') (getProp newExpense ''title''),
          category = jsOr (getProp v ''category'') (getProp newExpense ''category''),
          amount = jsOr (JNum (toNumber en (getProp v ''amount''))) (getProp newExpense ''amount''),
          date = d,
          timestamp = jsOr (jsOr (getProp v ''timestamp'') (getProp v ''timeStamp'')) (JStr now),
          note_f = jsOr (getProp v ''note'') (getProp newExpense ''note'') \<rparr>)"

text \<open>
  The body of the \<open>try\<close> of \<open>handleAdd\<close>: the collection it sets, or the exception that
  reaches the \<open>catch\<close>. \<open>r\<close> is the end of \<open>addExpense\<close>, \<open>l\<close> the end of the
  \<open>getAllExpenses\<close> that is awaited only when the response carries no identifier. With
  an identifier the clock is read once, at \<open>clock 0\<close>; without, by the callbacks of the
  reload.
\<close>

definition handleAdd_try :: "env \<Rightarrow> (nat \<Rightarrow> string) \<Rightarrow> expense list \<Rightarrow> jsval \<Rightarrow> remote \<Rightarrow> remote \<Rightarrow> exn + expense list" where
  "handleAdd_try en clock prev newExpense r l =
     (case r of
        Rejected d \<Rightarrow> Inl (Thrown d)
      | Resolved v \<Rightarrow>
          if hasIdentifier v then
            (case addMapped en (clock 0) newExpense v of
               Inl x \<Rightarrow> Inl x
             | Inr mappedExpense \<Rightarrow> Inr (arraySort en (mappedExpense # prev)))
          else
            (case l of
               Rejected d \<Rightarrow> Inl (Thrown d)
             | Resolved data \<Rightarrow> mappedExpenses en ''allExpensesResponse.data'' clock data))"

definition handleAdd :: "env \<Rightarrow> (nat \<Rightarrow> string) \<Rightarrow> state \<Rightarrow> jsval \<Rightarrow> remote \<Rightarrow> remote \<Rightarrow> state" where
  "handleAdd en clock st newExpense r l =
     (case handleAdd_try en clock (expenses st) newExpense r l of
        Inl x \<Rightarrow> st\<lparr> error := Some ''Failed to add expense. Please try again.'' \<rparr>
      | Inr xs \<Rightarrow> st\<lparr> expenses := xs, error := None \<rparr>)"

text \<open>
  \<open>a === b\<close>. Two objects are the same when they are one object; the model, which has
  no identities, compares their contents.
\<close>

fun strictEq :: "jsval \<Rightarrow> jsval \<Rightarrow> bool" where
  "strictEq (JNum a) (JNum b) = (a = b \<and> a \<noteq> NaN)"
| "strictEq a b = (a = b)"

text \<open>The record \<open>handleUpdate\<close> builds; \<open>now\<close> is what it reads from the clock.\<close>

definition updateMapped :: "env \<Rightarrow> string \<Rightarrow> jsval \<Rightarrow> jsval \<Rightarrow> jsval \<Rightarrow> exn + expense" where
  "updateMapped en now ident updated v =
     (if truthy v \<and> typeofObject v \<and> truthy (getProp v ''id'') then
        (case (if truthy (getProp v ''expenseDate'')
               then splitT0 en ''response.data.expenseDate.split'' (getProp v ''expenseDate'')
               else Inr (getProp updated ''date'')) of
           Inl x \<Rightarrow> Inl x
         | Inr d \<Rightarrow> Inr \<lparr>
             id_f = getProp v ''id'',
             title = jsOr (getProp v ''title'') (getProp updated ''title''),
             category = jsOr (getProp v ''category'') (getProp updated ''category''),
             amount = jsOr (JNum (toNumber en (getProp v ''amount''))) (getProp updated ''amount''),
             date = d,
             timestamp = jsOr (jsOr (jsOr (getProp v ''timestamp'') (getProp v ''timeStamp''))
                                    (getProp v ''expenseDate'')) (JStr now),
             note_f = jsOr (getProp v ''note'') (getProp updated ''note'') \<rparr>)
      else
        Inr \<lparr>
          id_f = ident,
          title = getProp updated ''title'',
          category = getProp updated ''category'',
          amount = getProp updated ''amount'',
          date = getProp updated ''date'',
          timestamp = JStr now,
          note_f = getProp updated ''note'' \<rparr>)"

definition handleUpdate_try :: "env \<Rightarrow> string \<Rightarrow> expense list \<Rightarrow> jsval \<Rightarrow> jsval \<Rightarrow> remote \<Rightarrow> exn + expense list" where
  "handleUpdate_try en now prev ident updated r =
     (case r of
        Rejected d \<Rightarrow> Inl (Thrown d)
      | Resolved v \<Rightarrow>
          (case updateMapped en now ident updated v of
             Inl x \<Rightarrow> Inl x
           | Inr mappedExpense \<Rightarrow>
               Inr (arraySort en
                      (map (\<lambda>e. if strictEq (id_f e) ident then mappedExpense else e) prev))))"

definition handleUpdate :: "env \<Rightarrow> string \<Rightarrow> state \<Rightarrow> jsval \<Rightarrow> jsval \<Rightarrow> remote \<Rightarrow> state" where
  "handleUpdate en now st ident updated r =
     (case handleUpdate_try en now (expenses st) ident updated r of
        Inl (Thrown d) \<Rightarrow> st\<lparr> error := Some (''Failed to update expense: '' @ d) \<rparr>
      | Inr xs \<Rightarrow> st\<lparr> expenses := xs, editingId := JNull, error := None \<rparr>)"

definition handleDelete_try :: "expense list \<Rightarrow> jsval \<Rightarrow> remote \<Rightarrow> exn + expense list" where
  "handleDelete_try prev ident r =
     (case r of
        Rejected d \<Rightarrow> Inl (Thrown d)
      | Resolved v \<Rightarrow> Inr (filter (\<lambda>e. \<not> strictEq (id_f e) ident) prev))"

definition handleDelete :: "state \<Rightarrow> jsval \<Rightarrow> remote \<Rightarrow> state" where
  "handleDelete st ident r =
     (case handleDelete_try (expenses st) ident r of
        Inl x \<Rightarrow> st\<lparr> error := Some ''Failed to delete expense. Please try again.'' \<rparr>
      | Inr xs \<Rightarrow> st\<lparr> expenses := xs, error := None \<rparr>)"

text \<open>The operations on the collection, each with what it reads from the clock and the ends of its calls.\<close>

datatype operation =
    Fetch "nat \<Rightarrow> string" remote
  | Add "nat \<Rightarrow> string" jsval remote remote
  | Update string jsval jsval remote
  | Delete jsval remote

fun step :: "env \<Rightarrow> state \<Rightarrow> operation \<Rightarrow> state" where
  "step en st (Fetch clock r) = fetchExpenses en clock st r"
| "step en st (Add clock newExpense r l) = handleAdd en clock st newExpense r l"
| "step en st (Update now ident updated r) = handleUpdate en now st ident updated r"
| "step en st (Delete ident r) = handleDelete st ident r"

text \<open>The states after each operation of a sequence.\<close>

fun trace :: "env \<Rightarrow> state \<Rightarrow> operation list \<Rightarrow> state list" where
  "trace en st [] = []"
| "trace en st (o1 # os) = step en st o1 # trace en (step en st o1) os"

section \<open>Forms\<close>

text \<open>\<open>amt <= 0\<close>\<close>

fun leZero :: "jsnum \<Rightarrow> bool" where
  "leZero (Fin q) = (q \<le> 0)"
| "leZero NInf = True"
| "leZero PInf = False"
| "leZero NaN = False"

text \<open>
  \<open>ExpenseForm.handleSubmit\<close> over the fields of the form: the object it passes to
  \<open>onSubmit\<close>, which is \<open>handleAdd\<close>, or \<open>None\<close> where it returns before.
\<close>

definition handleSubmit :: "env \<Rightarrow> jsval \<Rightarrow> jsval \<Rightarrow> jsval \<Rightarrow> jsval \<Rightarrow> jsval \<Rightarrow> jsval option" where
  "handleSubmit en titleS categoryS amountS dateS noteS =
     (let amt = toNumber en amountS
      in if truthy titleS then
           (if amt = NaN \<or> leZero amt then None
            else Some (JObj [(''title'', titleS), (''category'', jsOr categoryS (JStr ''General'')),
                   (''amount'', JNum amt), (''date'', dateS), (''note'', noteS)]))
         else None)"

text \<open>
  \<open>ExpenseRow.handleSave\<close> over the edited copy of the record: the object it passes to
  \<open>onSave\<close>, which is \<open>handleUpdate\<close>, or \<open>None\<close> where it returns before.
\<close>

definition handleSave :: "env \<Rightarrow> jsval \<Rightarrow> jsval option" where
  "handleSave en form =
     (let amt = toNumber en (getProp form ''amount'')
      in if truthy (getProp form ''title'') then
           (if amt = NaN \<or> leZero amt then None
            else Some (JObj [(''title'', getProp form ''title''), (''category'', getProp form ''category''),
                   (''amount'', JNum amt), (''date'', getProp form ''date''),
                   (''note'', getProp form ''note'')]))
         else None)"

text \<open>A value that is a number other than \<open>NaN\<close>.\<close>

fun numberNotNaN :: "jsval \<Rightarrow> bool" where
  "numberNotNaN (JNum n) = (n \<noteq> NaN)"
| "numberNotNaN v = False"

text \<open>An operation whose submitted amount, if it has one, is such a number, as the forms pass it.\<close>

fun submittedChecked :: "operation \<Rightarrow> bool" where
  "submittedChecked (Add clock newExpense r l) = numberNotNaN (getProp newExpense ''amount'')"
| "submittedChecked (Update now ident updated r) = numberNotNaN (getProp updated ''amount'')"
| "submittedChecked p = True"

section \<open>Responses a handler can read\<close>



section \<open>Sample data\<close>

text \<open>
  An engine in a zone at a fixed offset from UTC. Of what an engine supplies, the examples
  consult the conversion of unsigned decimal literals to numbers, the offset of the zone
  and the texts of the \<open>TypeError\<close>: their dates are calendar dates and instants as
  \<open>toISOString\<close> writes them, every other string is an invalid date, and no array or
  object is converted. The engine leaves an array whose comparator is not consistent as
  it is.
\<close>

definition decimalToNumber :: "string \<Rightarrow> jsnum" where
  "decimalToNumber s =
     (let ip = takeWhile isDigit s; rest = dropWhile isDigit s
      in case rest of
           [] \<Rightarrow> (case digitsVal 0 ip of Some i \<Rightarrow> roundDouble (of_int i) | None \<Rightarrow> NaN)
         | c # fp \<Rightarrow>
             (if c = CHR ''.'' \<and> \<not> (ip = [] \<and> fp = []) then
                (case (digitsVal 0 ip, digitsVal 0 fp) of
                   (Some i, Some f) \<Rightarrow> roundDouble (of_int i + of_int f / 10 ^ length fp)
                 | _ \<Rightarrow> NaN)
              else NaN))"

definition engineAt :: "int \<Rightarrow> env" where
  "engineAt off = \<lparr> strToNumber = decimalToNumber, objToString = (\<lambda>v. ''[object Object]''),
     parseOther = (\<lambda>s. None), localTZA = (\<lambda>t. off),
     notAFunction = (\<lambda>callee. callee @ '' is not a function''),
     cannotRead = (\<lambda>v p. ''Cannot read properties of '' @ v @ '' (reading '' @ [CHR 0x27] @ p
                          @ [CHR 0x27] @ '')''),
     sortOther = (\<lambda>xs. xs) \<rparr>"

text \<open>
  A clock that is read within ten milliseconds of an instant given up to its last digit:
  the reading at \<open>i\<close> ends in the digit \<open>i\<close>.
\<close>

definition clockAt :: "string \<Rightarrow> nat \<Rightarrow> string" where
  "clockAt s i = s @ showNat (i mod 10) @ ''Z''"

text \<open>Raw records of a listing, and the records the normalizer makes of them.\<close>

definition rawRent :: jsval where
  "rawRent = JObj [(''id'', JNum (Fin 1)), (''title'', JStr ''Rent''), (''amount'', JNum (Fin 900)),
     (''expenseDate'', JStr ''2024-01-15''), (''timestamp'', JStr ''2024-01-15T10:00:00.000Z'')]"

definition rentRecord :: expense where
  "rentRecord = \<lparr> id_f = JNum (Fin 1), title = JStr ''Rent'', category = JStr ''General'',
     amount = JNum (Fin 900), date = JStr ''2024-01-15'',
     timestamp = JStr ''2024-01-15T10:00:00.000Z'', note_f = JStr '''' \<rparr>"

definition rawGroceries :: jsval where
  "rawGroceries = JObj [(''id'', JNum (Fin 2)), (''title'', JStr ''Groceries''),
     (''category'', JStr ''Food''), (''amount'', JNum (Fin (217 / 4))),
     (''expenseDate'', JStr ''2024-02-01'')]"

definition groceriesRecord :: expense where
  "groceriesRecord = \<lparr> id_f = JNum (Fin 2), title = JStr ''Groceries'', category = JStr ''Food'',
     amount = JNum (Fin (217 / 4)), date = JStr ''2024-02-01'', timestamp = JStr ''2024-02-01'',
     note_f = JStr '''' \<rparr>"

definition rawBus :: jsval where
  "rawBus = JObj [(''id'', JNum (Fin 3)), (''title'', JStr ''Bus''), (''category'', JStr ''Transport''),
     (''amount'', JNum (Fin 3)), (''expenseDate'', JStr ''2024-01-31T00:00:00''),
     (''timeStamp'', JStr ''2024-01-31T07:30:00.000Z'')]"

definition busRecord :: expense where
  "busRecord = \<lparr> id_f = JNum (Fin 3), title = JStr ''Bus'', category = JStr ''Transport'',
     amount = JNum (Fin 3), date = JStr ''2024-01-31'',
     timestamp = JStr ''2024-01-31T07:30:00.000Z'', note_f = JStr '''' \<rparr>"

definition rawNoId :: jsval where
  "rawNoId = JObj [(''expenseId'', JNum (Fin 7)), (''title'', JStr ''Cinema''),
     (''amount'', JNum (Fin 12))]"

definition rawRefund :: jsval where
  "rawRefund = JObj [(''id'', JNum (Fin 5)), (''title'', JStr ''Refund''),
     (''amount'', JNum (Fin (- 5))), (''expenseDate'', JStr ''2024-01-16'')]"

definition refundRecord :: expense where
  "refundRecord = \<lparr> id_f = JNum (Fin 5), title = JStr ''Refund'', category = JStr ''General'',
     amount = JNum (Fin (- 5)), date = JStr ''2024-01-16'', timestamp = JStr ''2024-01-16'',
     note_f = JStr '''' \<rparr>"



text \<open>A raw record whose timestamp is a text that is not a date.\<close>

definition rawGift :: jsval where
  "rawGift = JObj [(''id'', JNum (Fin 6)), (''title'', JStr ''Gift''), (''amount'', JNum (Fin 20)),
     (''expenseDate'', JStr ''2024-01-20''), (''timestamp'', JStr ''yesterday'')]"

definition giftRecord :: expense where
  "giftRecord = \<lparr> id_f = JNum (Fin 6), title = JStr ''Gift'', category = JStr ''General'',
     amount = JNum (Fin 20), date = JStr ''2024-01-20'', timestamp = JStr ''yesterday'',
     note_f = JStr '''' \<rparr>"


text \<open>A raw record whose category is a number.\<close>

definition rawParking :: jsval where
  "rawParking = JObj [(''id'', JNum (Fin 10)), (''title'', JStr ''Parking''),
     (''category'', JNum (Fin 5)), (''amount'', JNum (Fin 4)), (''expenseDate'', JStr ''2024-02-10'')]"

definition parkingRecord :: expense where
  "parkingRecord = \<lparr> id_f = JNum (Fin 10), title = JStr ''Parking'', category = JNum (Fin 5),
     amount = JNum (Fin 4), date = JStr ''2024-02-10'', timestamp = JStr ''2024-02-10'',
     note_f = JStr '''' \<rparr>"

text \<open>What the add form submits, two responses to it, and the record made of the first.\<close>

definition submittedLunch :: jsval where
  "submittedLunch = JObj [(''title'', JStr ''Lunch''), (''category'', JStr ''Food''),
     (''amount'', JNum (Fin (25 / 2))), (''date'', JStr ''2024-03-02''), (''note'', JStr ''team'')]"

definition responseZero :: jsval where
  "responseZero = JObj [(''id'', JNum (Fin 4)), (''title'', JStr ''Lunch''), (''amount'', JNum (Fin 0)),
     (''note'', JStr ''''), (''timestamp'', JStr ''2024-03-02T11:59:58.250Z'')]"

definition lunchRecord :: expense where
  "lunchRecord = \<lparr> id_f = JNum (Fin 4), title = JStr ''Lunch'', category = JStr ''Food'',
     amount = JNum (Fin (25 / 2)), date = JStr ''2024-03-02'',
     timestamp = JStr ''2024-03-02T11:59:58.250Z'', note_f = JStr ''team'' \<rparr>"


text \<open>
  The edited copy of the rent in its row, what the row submits, the record that
  \<open>handleUpdate\<close> makes of it when the response is a message, and a response to the update
  whose date is a number of milliseconds.
\<close>

definition formRent :: jsval where
  "formRent = JObj [(''id'', JNum (Fin 1)), (''title'', JStr ''Rent''), (''category'', JStr ''''),
     (''amount'', JStr ''950''), (''date'', JStr ''2024-01-15''),
     (''timestamp'', JStr ''2024-01-15T10:00:00.000Z''), (''note'', JStr '''')]"

definition editedRent :: jsval where
  "editedRent = JObj [(''title'', JStr ''Rent''), (''category'', JStr ''''), (''amount'', JNum (Fin 950)),
     (''date'', JStr ''2024-01-15''), (''note'', JStr '''')]"

definition rentEdited :: expense where
  "rentEdited = \<lparr> id_f = JNum (Fin 1), title = JStr ''Rent'', category = JStr '''',
     amount = JNum (Fin 950), date = JStr ''2024-01-15'',
     timestamp = JStr ''2024-03-03T08:00:00.000Z'', note_f = JStr '''' \<rparr>"


text \<open>A state after a load, with an error message left from an earlier failure.\<close>

definition loadedState :: state where
  "loadedState = \<lparr> expenses = [groceriesRecord, busRecord, rentRecord],
     error = Some ''Failed to delete expense. Please try again.'', editingId = JNum (Fin 1),
     loading = False \<rparr>"

text \<open>
  A run: a load of four raw records, a create that is answered with the record, an update
  that is answered with a message, a delete, and a delete that fails.
\<close>

definition sampleRun :: "operation list" where
  "sampleRun =
     [Fetch (clockAt ''2024-03-01T09:00:00.00'') (Resolved (JArr [rawRent, rawGroceries, rawBus, rawNoId])),
      Add (clockAt ''2024-03-02T12:00:00.00'') submittedLunch (Resolved responseZero) (Rejected ''unused''),
      Update ''2024-03-03T08:00:00.000Z'' (JNum (Fin 1)) editedRent (Resolved (JStr ''Expense updated'')),
      Delete (JNum (Fin 2)) (Resolved (JStr ''Expense deleted'')),
      Delete (JNum (Fin 3)) (Rejected ''Network Error'')]"

section \<open>The category series in the words of the specification\<close>

text \<open>
  The labels are the trimmed categories in the order in which they are first seen, a blank
  category counting as \<open>General\<close>; the value of a label is the sum of the amounts of the
  records with that label, added in the order of the records as the language adds numbers.
\<close>

definition firstSeen :: "'a list \<Rightarrow> 'a list" where
  "firstSeen xs = rev (remdups (rev xs))"

definition groupLabel :: "expense \<Rightarrow> string" where
  "groupLabel e =
     (case category e of
        JStr s \<Rightarrow> (if trim s = [] then ''General'' else trim s)
      | _ \<Rightarrow> ''General'')"

definition amountOf :: "expense \<Rightarrow> jsnum" where
  "amountOf e = (case amount e of JNum n \<Rightarrow> n | _ \<Rightarrow> Fin 0)"

definition groupTotal :: "expense list \<Rightarrow> string \<Rightarrow> jsnum" where
  "groupTotal xs l = foldl jsAdd (Fin 0) (map amountOf (filter (\<lambda>e. groupLabel e = l) xs))"

text \<open>A record whose category is a string and whose amount is a finite number.\<close>

definition textAndFinite :: "expense \<Rightarrow> bool" where
  "textAndFinite e =
     ((case category e of JStr s \<Rightarrow> True | _ \<Rightarrow> False)
      \<and> (case amount e of JNum (Fin q) \<Rightarrow> True | _ \<Rightarrow> False))"

text \<open>
  Records for the chart: two of the category \<open>Food\<close>, one of them with blanks around the
  word; two that fold into \<open>General\<close>; and two of the category \<open>Snacks\<close> whose amounts are
  the doubles of \<open>0.1\<close> and \<open>0.2\<close>, with the sum \<open>0.30000000000000004\<close>.
\<close>

definition chartRecords :: "expense list" where
  "chartRecords =
     [busRecord, lunchRecord, rentEdited, groceriesRecord\<lparr> category := JStr '' Food '' \<rparr>,
      rentRecord\<lparr> category := JStr ''  '' \<rparr>,
      busRecord\<lparr> category := JStr ''Snacks'',
                 amount := JNum (Fin (3602879701896397 / 36028797018963968)) \<rparr>,
      busRecord\<lparr> category := JStr ''Snacks '',
                 amount := JNum (Fin (3602879701896397 / 18014398509481984)) \<rparr>]"

text \<open>Records of one category whose amounts are the two infinities and a five.\<close>

definition infiniteRecords :: "expense list" where
  "infiniteRecords =
     [rentRecord\<lparr> amount := JNum PInf \<rparr>, rentRecord\<lparr> amount := JNum NInf \<rparr>,
      rentRecord\<lparr> amount := JNum (Fin 5) \<rparr>]"

section \<open>Lemmas\<close>

subsection \<open>Values\<close>

lemma jsOr_idem: "jsOr (jsOr a b) b = jsOr a b"
  by (simp add: jsOr_def)

lemma jsOr_truthy: "truthy a \<Longrightarrow> jsOr a b = a"
  by (simp add: jsOr_def)

lemma truthy_jsOr: "truthy (jsOr a b) = (truthy a \<or> truthy b)"
  by (simp add: jsOr_def)

lemma amount_idem:
  "jsOr (JNum (toNumber en (jsOr (JNum n) (JNum (Fin 0))))) (JNum (Fin 0))
     = jsOr (JNum n) (JNum (Fin 0))"
  by (simp add: jsOr_def)

lemma roundDouble_not_NaN: "roundDouble q \<noteq> NaN"
  by (simp add: roundDouble_def Let_def)

lemma jsAdd_finite_not_NaN: "a \<noteq> NaN \<Longrightarrow> jsAdd a (Fin q) \<noteq> NaN"
  by (cases a) (simp_all add: roundDouble_not_NaN)

subsection \<open>The normalizer\<close>

lemma mapExpense_Inr:
  assumes "mapExpense en d t e = Inr r"
  shows "id_f r = getProp e ''id''"
    and "title r = jsOr (getProp e ''title'') (JStr ''Untitled'')"
    and "category r = jsOr (getProp e ''category'') (JStr ''General'')"
    and "amount r = jsOr (JNum (toNumber en (getProp e ''amount''))) (JNum (Fin 0))"
    and "timestamp r = jsOr (jsOr (jsOr (getProp e ''timestamp'') (getProp e ''timeStamp''))
                                 (getProp e ''expenseDate'')) (JStr t)"
    and "note_f r = jsOr (getProp e ''note'') (JStr '''')"
  using assms unfolding mapExpense_def by (auto split: sum.splits)

lemma getProp_asObject:
  "getProp (asObject r) ''id'' = id_f r"
  "getProp (asObject r) ''title'' = title r"
  "getProp (asObject r) ''category'' = category r"
  "getProp (asObject r) ''amount'' = amount r"
  "getProp (asObject r) ''timestamp'' = timestamp r"
  "getProp (asObject r) ''note'' = note_f r"
  "getProp (asObject r) ''expenseDate'' = JUndefined"
  "getProp (asObject r) ''timeStamp'' = JUndefined"
  by (simp_all add: asObject_def)

lemma rent_normalized:
  "mapExpense (engineAt 0) ''2024-01-20T08:00:00.000Z'' ''2024-01-20T08:00:00.001Z'' rawRent
     = Inr rentRecord"
  by code_simp

lemma refund_normalized:
  "mapExpense (engineAt 0) ''2024-01-20T08:00:00.000Z'' ''2024-01-20T08:00:00.001Z'' rawRefund
     = Inr refundRecord"
  by code_simp



subsection \<open>Sorting\<close>

lemma mset_insertSorted: "mset (insertSorted c x xs) = add_mset x (mset xs)"
  by (induction xs) auto

lemma mset_insertion: "mset (foldr (insertSorted c) xs []) = mset xs"
  by (induction xs) (auto simp: mset_insertSorted)

lemma mset_engineOrder: "mset (engineOrder en xs) = mset xs"
  by (simp add: engineOrder_def)

lemma mset_arraySort: "mset (arraySort en xs) = mset xs"
  by (simp add: arraySort_def mset_insertion mset_engineOrder)

lemma set_insertSorted: "set (insertSorted c x xs) = insert x (set xs)"
  using mset_insertSorted[of c x xs] by (metis set_mset_add_mset_insert set_mset_mset)

lemma set_insertion: "set (foldr (insertSorted c) xs []) = set xs"
  using mset_insertion[of c xs] by (metis set_mset_mset)

lemma set_arraySort: "set (arraySort en xs) = set xs"
  using mset_arraySort[of en xs] by (metis set_mset_mset)

lemma compare_valid:
  assumes "validTs en x" "validTs en y"
  shows "(sortCompare (compareFn en) x y \<le> 0) = tsGe en x y"
    and "\<not> tsGe en x y \<Longrightarrow> tsGe en y x"
  using assms by (auto simp: validTs_def sortCompare_def compareFn_def tsGe_def)

lemma tsGe_trans: "tsGe en x y \<Longrightarrow> tsGe en y z \<Longrightarrow> tsGe en x z"
  by (auto simp: tsGe_def split: option.splits)

lemma tsGe_valid: "tsGe en x y \<Longrightarrow> validTs en x \<and> validTs en y"
  by (auto simp: tsGe_def validTs_def split: option.splits)

lemma insertSorted_descending:
  assumes "validTs en x" "\<forall>y\<in>set ys. validTs en y" "sorted_wrt (tsGe en) ys"
  shows "sorted_wrt (tsGe en) (insertSorted (compareFn en) x ys)"
  using assms
proof (induction ys)
  case Nil
  then show ?case by simp
next
  case (Cons y ys)
  show ?case
  proof (cases "sortCompare (compareFn en) x y \<le> 0")
    case True
    then have xy: "tsGe en x y" using compare_valid(1) Cons.prems by simp
    have "\<forall>z\<in>set ys. tsGe en x z"
      using xy Cons.prems(3) tsGe_trans by auto
    then show ?thesis using True xy Cons.prems(3) by simp
  next
    case False
    then have yx: "tsGe en y x" using compare_valid Cons.prems by auto
    have "sorted_wrt (tsGe en) (insertSorted (compareFn en) x ys)"
      using Cons by simp
    then show ?thesis using False yx Cons.prems(3) by (auto simp: set_insertSorted)
  qed
qed

lemma insertion_descending:
  "\<forall>x\<in>set xs. validTs en x \<Longrightarrow> sorted_wrt (tsGe en) (foldr (insertSorted (compareFn en)) xs [])"
proof (induction xs)
  case Nil
  then show ?case by simp
next
  case (Cons x xs)
  have "sorted_wrt (tsGe en) (foldr (insertSorted (compareFn en)) xs [])" using Cons by simp
  moreover have "\<forall>y\<in>set (foldr (insertSorted (compareFn en)) xs []). validTs en y"
    using Cons.prems by (simp add: set_insertion)
  ultimately show ?case
    using insertSorted_descending Cons.prems by simp
qed

lemma list_all_arraySort: "list_all P (arraySort en xs) = list_all P xs"
  by (simp add: list_all_iff set_arraySort)

lemma arraySort_descending:
  assumes "list_all (validTs en) (arraySort en xs)"
  shows "descending en (arraySort en xs)"
proof -
  have v: "list_all (validTs en) xs"
    using assms by (simp add: list_all_arraySort)
  then have "sorted_wrt (tsGe en) (foldr (insertSorted (compareFn en)) xs [])"
    by (intro insertion_descending) (simp add: list_all_iff)
  then show ?thesis using v by (simp add: descending_def arraySort_def)
qed

lemma descending_Nil: "descending en []"
  by (simp add: descending_def)

lemma descending_filter: "descending en xs \<Longrightarrow> descending en (filter P xs)"
  unfolding descending_def by (rule sorted_wrt_filter)

text \<open>A record whose timestamp is not a date is in its place in no arrangement with another record.\<close>

lemma invalid_not_descending:
  assumes x: "x \<in> set ys" and n: "\<not> validTs en x" and l: "2 \<le> length ys"
  shows "\<not> descending en ys"
proof
  assume d: "descending en ys"
  obtain i where i: "i < length ys" "ys ! i = x"
    using x by (auto simp: in_set_conv_nth)
  define j where "j = (if i = 0 then 1 else (0::nat))"
  have j: "j < length ys" "j \<noteq> i"
    using l by (auto simp: j_def)
  have s: "\<And>a b. a < b \<Longrightarrow> b < length ys \<Longrightarrow> tsGe en (ys ! a) (ys ! b)"
    using d by (simp add: descending_def sorted_wrt_iff_nth_less)
  show False
  proof (cases "i < j")
    case True
    then have "tsGe en (ys ! i) (ys ! j)" using s[of i j] j(1) by simp
    then show False using tsGe_valid i(2) n by blast
  next
    case False
    then have "j < i" using j by simp
    then have "tsGe en (ys ! j) (ys ! i)" using s[of j i] i(1) by simp
    then show False using tsGe_valid i(2) n by blast
  qed
qed

lemma invalid_no_arrangement:
  assumes "x \<in> set xs" "\<not> validTs en x" "2 \<le> length xs"
  shows "\<not> (\<exists>ys. mset ys = mset xs \<and> descending en ys)"
proof
  assume "\<exists>ys. mset ys = mset xs \<and> descending en ys"
  then obtain ys where ys: "mset ys = mset xs" "descending en ys" by blast
  have "x \<in> set ys" using ys(1) assms(1) by (metis set_mset_mset)
  moreover have "2 \<le> length ys" using ys(1) assms(3) by (metis size_mset)
  ultimately show False using invalid_not_descending assms(2) ys(2) by blast
qed

lemma engineOrder_engineAt: "engineOrder (engineAt off) xs = xs"
  by (simp add: engineOrder_def engineAt_def)

subsection \<open>What the handlers set\<close>

lemma mappedExpenses_Inr:
  assumes "mappedExpenses en name clock data = Inr xs"
  shows "\<exists>raws ms. data = JArr raws \<and> mapAdmitted en clock raws = Inr ms \<and> xs = arraySort en ms"
  using assms by (cases data) (auto split: sum.splits)

lemma handleAdd_try_sorted:
  "handleAdd_try en clock prev n r l = Inr xs \<Longrightarrow> \<exists>ms. xs = arraySort en ms"
  unfolding handleAdd_try_def
  by (auto split: remote.splits sum.splits if_splits dest: mappedExpenses_Inr)

lemma handleUpdate_try_sorted:
  "handleUpdate_try en now prev i u r = Inr xs \<Longrightarrow> \<exists>ms. xs = arraySort en ms"
  unfolding handleUpdate_try_def
  by (auto split: remote.splits sum.splits)

lemma fetchExpenses_try_sorted:
  "fetchExpenses_try en clock r = Inr xs \<Longrightarrow> \<exists>ms. xs = arraySort en ms"
  unfolding fetchExpenses_try_def
  by (auto split: remote.splits dest: mappedExpenses_Inr)

lemma step_descending:
  assumes "descending en (expenses st)" "list_all (validTs en) (expenses (step en st o1))"
  shows "descending en (expenses (step en st o1))"
proof (cases o1)
  case (Fetch clock r)
  show ?thesis
  proof (cases "fetchExpenses_try en clock r")
    case (Inl x)
    then show ?thesis using Fetch by (simp add: fetchExpenses_def descending_Nil)
  next
    case (Inr xs)
    then obtain ms where "xs = arraySort en ms"
      using fetchExpenses_try_sorted by blast
    then show ?thesis using Fetch Inr assms(2) by (simp add: fetchExpenses_def arraySort_descending)
  qed
next
  case (Add clock n r l)
  show ?thesis
  proof (cases "handleAdd_try en clock (expenses st) n r l")
    case (Inl x)
    then show ?thesis using Add assms(1) by (simp add: handleAdd_def)
  next
    case (Inr xs)
    then obtain ms where "xs = arraySort en ms"
      using handleAdd_try_sorted by blast
    then show ?thesis using Add Inr assms(2) by (simp add: handleAdd_def arraySort_descending)
  qed
next
  case (Update now i u r)
  show ?thesis
  proof (cases "handleUpdate_try en now (expenses st) i u r")
    case (Inl x)
    then show ?thesis using Update assms(1) by (cases x) (simp add: handleUpdate_def)
  next
    case (Inr xs)
    then obtain ms where "xs = arraySort en ms"
      using handleUpdate_try_sorted by blast
    then show ?thesis using Update Inr assms(2) by (simp add: handleUpdate_def arraySort_descending)
  qed
next
  case (Delete i r)
  then show ?thesis using assms(1)
    by (cases r) (simp_all add: handleDelete_def handleDelete_try_def descending_filter)
qed

lemma trace_descending:
  assumes "descending en (expenses st)"
    and "list_all (\<lambda>s. list_all (validTs en) (expenses s)) (trace en st ops)"
  shows "list_all (\<lambda>s. descending en (expenses s)) (trace en st ops)"
  using assms
proof (induction ops arbitrary: st)
  case Nil
  then show ?case by simp
next
  case (Cons o1 ops)
  have d: "descending en (expenses (step en st o1))"
    using step_descending Cons.prems by simp
  then show ?case using Cons by simp
qed

lemma addMapped_Inr:
  assumes "addMapped en now newExpense v = Inr m"
  shows "id_f m = jsOr (getProp v ''id'') (getProp v ''expenseId'')"
    and "title m = jsOr (getProp v ''title'') (getProp newExpense ''title'')"
    and "category m = jsOr (getProp v ''category'') (getProp newExpense ''category'')"
    and "amount m = jsOr (JNum (toNumber en (getProp v ''amount''))) (getProp newExpense ''amount'')"
    and "timestamp m = jsOr (jsOr (getProp v ''timestamp'') (getProp v ''timeStamp'')) (JStr now)"
    and "note_f m = jsOr (getProp v ''note'') (getProp newExpense ''note'')"
    and "(if truthy (getProp v ''expenseDate'')
          then splitT0 en ''response.data.expenseDate.split'' (getProp v ''expenseDate'')
          else Inr (getProp newExpense ''date'')) = Inr (date m)"
  using assms unfolding addMapped_def by (auto split: sum.splits)

lemma lunch_mapped:
  "addMapped (engineAt 0) (clockAt ''2024-03-03T08:00:00.00'' 0) submittedLunch responseZero
     = Inr lunchRecord"
  by code_simp

lemma responseZero_identified: "hasIdentifier responseZero"
  by code_simp

subsection \<open>The loop of the category chart\<close>

lemma trim_General: "trim ''General'' = ''General''"
  by code_simp

lemma trim_Nil: "trim [] = []"
  by (simp add: trim_def)

lemma categoryKey_text:
  "textAndFinite e \<Longrightarrow> categoryKey en e = Inr (groupLabel e)"
  by (auto simp: textAndFinite_def categoryKey_def groupLabel_def jsOr_def trim_General trim_Nil
      split: jsval.splits jsnum.splits)

lemma amount_finite:
  "textAndFinite e \<Longrightarrow> toNumber en (jsOr (amount e) (JNum (Fin 0))) = amountOf e"
  by (auto simp: textAndFinite_def amountOf_def jsOr_def split: jsval.splits jsnum.splits)

lemma amountOf_finite: "textAndFinite e \<Longrightarrow> \<exists>q. amountOf e = Fin q"
  by (auto simp: textAndFinite_def amountOf_def split: jsval.splits jsnum.splits)

lemma foldl_jsAdd_not_NaN:
  "a \<noteq> NaN \<Longrightarrow> list_all (\<lambda>n. \<exists>q. n = Fin q) ns \<Longrightarrow> foldl jsAdd a ns \<noteq> NaN"
proof (induction ns arbitrary: a)
  case Nil
  then show ?case by simp
next
  case (Cons n ns)
  obtain q where q: "n = Fin q" using Cons.prems(2) by auto
  have "jsAdd a n \<noteq> NaN"
    unfolding q using Cons.prems(1) by (rule jsAdd_finite_not_NaN)
  moreover have "list_all (\<lambda>n. \<exists>q. n = Fin q) ns" using Cons.prems(2) by simp
  ultimately have "foldl jsAdd (jsAdd a n) ns \<noteq> NaN" by (rule Cons.IH)
  then show ?case by simp
qed

lemma groupTotal_not_NaN:
  assumes "list_all textAndFinite xs"
  shows "groupTotal xs l \<noteq> NaN"
proof -
  have "list_all (\<lambda>n. \<exists>q. n = Fin q) (map amountOf (filter (\<lambda>e. groupLabel e = l) xs))"
    using assms amountOf_finite by (auto simp: list_all_iff)
  then show ?thesis unfolding groupTotal_def by (intro foldl_jsAdd_not_NaN) simp_all
qed

lemma categoryLoop_append:
  "categoryLoop en m (xs @ ys) =
     (case categoryLoop en m xs of Inl x \<Rightarrow> Inl x | Inr m' \<Rightarrow> categoryLoop en m' ys)"
  by (induction xs arbitrary: m) (auto split: sum.splits)

lemma firstSeen_snoc:
  "firstSeen (ks @ [k]) = (if k \<in> set ks then firstSeen ks else firstSeen ks @ [k])"
  by (simp add: firstSeen_def)

lemma set_firstSeen: "set (firstSeen ks) = set ks"
  by (simp add: firstSeen_def)

lemma distinct_firstSeen: "distinct (firstSeen ks)"
  by (simp add: firstSeen_def)

lemma groupTotal_snoc:
  "groupTotal (xs @ [e]) l
     = (if groupLabel e = l then jsAdd (groupTotal xs l) (amountOf e) else groupTotal xs l)"
  by (simp add: groupTotal_def)

lemma groupTotal_unseen:
  "l \<notin> set (map groupLabel xs) \<Longrightarrow> groupTotal xs l = Fin 0"
  unfolding groupTotal_def
  by (induction xs) auto

lemma mapGetOr0_series:
  assumes "\<And>l. l \<notin> set ls \<Longrightarrow> f l = Fin 0" and "f k \<noteq> NaN"
  shows "mapGetOr0 (map (\<lambda>l. (l, f l)) ls) k = f k"
proof (cases "k \<in> set ls")
  case True
  then have "map_of (map (\<lambda>l. (l, f l)) ls) k = Some (f k)"
    by (induction ls) auto
  then show ?thesis using assms(2) by (auto simp: mapGetOr0_def)
next
  case False
  then have "map_of (map (\<lambda>l. (l, f l)) ls) k = None"
    by (induction ls) auto
  then show ?thesis using assms(1)[OF False] by (simp add: mapGetOr0_def)
qed

lemma mapSet_new:
  "k \<notin> set ls \<Longrightarrow> mapSet k v (map (\<lambda>l. (l, g l)) ls) = map (\<lambda>l. (l, g l)) ls @ [(k, v)]"
  by (induction ls) auto

lemma mapSet_seen:
  "k \<in> set ls \<Longrightarrow> distinct ls \<Longrightarrow>
     mapSet k v (map (\<lambda>l. (l, g l)) ls) = map (\<lambda>l. (l, if l = k then v else g l)) ls"
  by (induction ls) auto

lemma categoryLoop_series:
  "list_all textAndFinite xs \<Longrightarrow>
     categoryLoop en [] xs
       = Inr (map (\<lambda>l. (l, groupTotal xs l)) (firstSeen (map groupLabel xs)))"
proof (induction xs rule: rev_induct)
  case Nil
  then show ?case by (simp add: firstSeen_def)
next
  case (snoc e xs)
  let ?ls = "firstSeen (map groupLabel xs)"
  let ?k = "groupLabel e"
  let ?v = "jsAdd (groupTotal xs ?k) (amountOf e)"
  have tf: "textAndFinite e" and all: "list_all textAndFinite xs"
    and ih: "categoryLoop en [] xs = Inr (map (\<lambda>l. (l, groupTotal xs l)) ?ls)"
    using snoc by simp_all
  have g: "mapGetOr0 (map (\<lambda>l. (l, groupTotal xs l)) ?ls) ?k = groupTotal xs ?k"
    by (rule mapGetOr0_series) (simp_all add: set_firstSeen groupTotal_unseen groupTotal_not_NaN[OF all])
  have step: "categoryLoop en [] (xs @ [e])
      = Inr (mapSet ?k ?v (map (\<lambda>l. (l, groupTotal xs l)) ?ls))"
    by (simp add: categoryLoop_append ih categoryKey_text[OF tf] amount_finite[OF tf] g)
  show ?case
  proof (cases "?k \<in> set (map groupLabel xs)")
    case True
    then have "?k \<in> set ?ls" by (simp add: set_firstSeen)
    then have "mapSet ?k ?v (map (\<lambda>l. (l, groupTotal xs l)) ?ls)
        = map (\<lambda>l. (l, if l = ?k then ?v else groupTotal xs l)) ?ls"
      by (rule mapSet_seen) (rule distinct_firstSeen)
    also have "\<dots> = map (\<lambda>l. (l, groupTotal (xs @ [e]) l)) ?ls"
      by (simp add: groupTotal_snoc)
    finally show ?thesis using True step by (simp add: firstSeen_snoc)
  next
    case False
    then have n: "?k \<notin> set ?ls" by (simp add: set_firstSeen)
    have "mapSet ?k ?v (map (\<lambda>l. (l, groupTotal xs l)) ?ls)
        = map (\<lambda>l. (l, groupTotal xs l)) ?ls @ [(?k, ?v)]"
      using n by (rule mapSet_new)
    also have "\<dots> = map (\<lambda>l. (l, groupTotal (xs @ [e]) l)) (?ls @ [?k])"
      using n by (auto simp: groupTotal_snoc)
    finally show ?thesis using False step by (simp add: firstSeen_snoc)
  qed
qed

subsection \<open>Amounts\<close>

lemma numberNotNaN_jsOr:
  "numberNotNaN b \<Longrightarrow> numberNotNaN (jsOr (JNum n) b)"
  by (simp add: jsOr_def)

lemma mapExpense_amount: "mapExpense en d t e = Inr r \<Longrightarrow> numberNotNaN (amount r)"
  by (simp add: mapExpense_Inr(4) numberNotNaN_jsOr)

lemma addMapped_amount:
  "addMapped en now n v = Inr m \<Longrightarrow> numberNotNaN (getProp n ''amount'') \<Longrightarrow> numberNotNaN (amount m)"
  by (simp add: addMapped_Inr(4) numberNotNaN_jsOr)

lemma updateMapped_amount:
  "updateMapped en now i u v = Inr m \<Longrightarrow> numberNotNaN (getProp u ''amount'') \<Longrightarrow> numberNotNaN (amount m)"
  unfolding updateMapped_def
  by (auto simp: numberNotNaN_jsOr split: if_splits sum.splits)

lemma mapE_all:
  "mapE f xs = Inr ys \<Longrightarrow> (\<And>x y. f x = Inr y \<Longrightarrow> P y) \<Longrightarrow> list_all P ys"
  by (induction xs arbitrary: ys) (auto split: sum.splits)

lemma mappedExpenses_amounts:
  assumes "mappedExpenses en name clock data = Inr xs"
  shows "list_all (\<lambda>e. numberNotNaN (amount e)) xs"
proof -
  obtain raws ms where ms: "mapAdmitted en clock raws = Inr ms"
    and xs: "xs = arraySort en ms"
    using mappedExpenses_Inr[OF assms] by auto
  have "list_all (\<lambda>e. numberNotNaN (amount e)) ms"
    using ms unfolding mapAdmitted_def
    by (rule mapE_all) (auto simp: mapExpense_amount)
  then show ?thesis using xs by (simp add: list_all_arraySort)
qed

lemma step_amounts:
  assumes "list_all (\<lambda>e. numberNotNaN (amount e)) (expenses st)" "submittedChecked o1"
  shows "list_all (\<lambda>e. numberNotNaN (amount e)) (expenses (step en st o1))"
proof (cases o1)
  case (Fetch clock r)
  then show ?thesis
    by (auto simp: fetchExpenses_def fetchExpenses_try_def mappedExpenses_amounts
        split: sum.splits remote.splits)
next
  case (Add clock n r l)
  then show ?thesis using assms
    by (auto simp: handleAdd_def handleAdd_try_def mappedExpenses_amounts list_all_arraySort
        addMapped_amount split: sum.splits remote.splits if_splits)
next
  case (Update now i u r)
  show ?thesis
  proof (cases "handleUpdate_try en now (expenses st) i u r")
    case (Inl x)
    then show ?thesis using Update assms(1) by (cases x) (simp add: handleUpdate_def)
  next
    case (Inr xs)
    then obtain v m where m: "updateMapped en now i u v = Inr m"
      and xs: "xs = arraySort en (map (\<lambda>e. if strictEq (id_f e) i then m else e) (expenses st))"
      unfolding handleUpdate_try_def by (auto split: remote.splits sum.splits)
    have "numberNotNaN (amount m)"
      using updateMapped_amount[OF m] assms(2) Update by simp
    then have "list_all (\<lambda>e. numberNotNaN (amount e)) xs"
      using assms(1) xs by (auto simp: list_all_iff set_arraySort)
    then show ?thesis using Update Inr by (simp add: handleUpdate_def)
  qed
next
  case (Delete i r)
  then show ?thesis using assms
    by (auto simp: handleDelete_def handleDelete_try_def list_all_iff split: remote.splits)
qed

lemma trace_amounts:
  assumes "list_all (\<lambda>e. numberNotNaN (amount e)) (expenses st)" "list_all submittedChecked ops"
  shows "list_all (\<lambda>s. list_all (\<lambda>e. numberNotNaN (amount e)) (expenses s)) (trace en st ops)"
  using assms
proof (induction ops arbitrary: st)
  case Nil
  then show ?case by simp
next
  case (Cons o1 ops)
  then show ?case using step_amounts[of st o1 en] by simp
qed

lemma handleSubmit_amount:
  "handleSubmit en t c a d nt = Some n \<Longrightarrow>
     \<exists>q. getProp n ''amount'' = JNum q \<and> q \<noteq> NaN \<and> \<not> leZero q"
  by (auto simp: handleSubmit_def Let_def split: if_splits)

lemma handleSave_amount:
  "handleSave en form = Some u \<Longrightarrow>
     \<exists>q. getProp u ''amount'' = JNum q \<and> q \<noteq> NaN \<and> \<not> leZero q"
  by (auto simp: handleSave_def Let_def split: if_splits)

subsection \<open>Handlers that run to their end, and handlers that throw\<close>



















section \<open>The claims\<close>

text \<open>
  C1, as amended. Over every sequence of operations (load, create, update, delete) after
  each of which every record's timestamp is a valid instant, the collection is in
  descending order of timestamp after each operation: every record's instant is at least
  the instant of every record behind it.
\<close>

theorem collection_descending:
  assumes "list_all (\<lambda>s. list_all (validTs en) (expenses s)) (trace en initialState ops)"
  shows "list_all (\<lambda>s. descending en (expenses s)) (trace en initialState ops)"
  using assms by (intro trace_descending) (simp_all add: initialState_def descending_Nil)

text \<open>
  The sample run loads three records and leaves out one without \<open>id\<close>, creates a
  fourth, updates the oldest, deletes one and fails to delete another.
\<close>

theorem collection_descending_witness:
  "list_all (\<lambda>s. list_all (validTs (engineAt 0)) (expenses s)) (trace (engineAt 0) initialState sampleRun)
   \<and> list_all (\<lambda>s. descending (engineAt 0) (expenses s)) (trace (engineAt 0) initialState sampleRun)
   \<and> map (\<lambda>s. map id_f (expenses s)) (trace (engineAt 0) initialState sampleRun)
      = [[JNum (Fin 2), JNum (Fin 3), JNum (Fin 1)],
         [JNum (Fin 4), JNum (Fin 2), JNum (Fin 3), JNum (Fin 1)],
         [JNum (Fin 1), JNum (Fin 4), JNum (Fin 2), JNum (Fin 3)],
         [JNum (Fin 1), JNum (Fin 4), JNum (Fin 3)],
         [JNum (Fin 1), JNum (Fin 4), JNum (Fin 3)]]"
proof -
  have v: "list_all (\<lambda>s. list_all (validTs (engineAt 0)) (expenses s))
             (trace (engineAt 0) initialState sampleRun)"
    by code_simp
  have i: "map (\<lambda>s. map id_f (expenses s)) (trace (engineAt 0) initialState sampleRun)
      = [[JNum (Fin 2), JNum (Fin 3), JNum (Fin 1)],
         [JNum (Fin 4), JNum (Fin 2), JNum (Fin 3), JNum (Fin 1)],
         [JNum (Fin 1), JNum (Fin 4), JNum (Fin 2), JNum (Fin 3)],
         [JNum (Fin 1), JNum (Fin 4), JNum (Fin 3)],
         [JNum (Fin 1), JNum (Fin 4), JNum (Fin 3)]]"
    by code_simp
  from collection_descending[OF v] v i show ?thesis by simp
qed

text \<open>
  The claim as stated fails: the normalizer takes any truthy value for a timestamp. A load
  of the rent and of a record whose timestamp is the text \<open>yesterday\<close>, which is no date,
  leaves a collection that is not in descending order, and no arrangement of the two
  records is: the instant of an invalid date is \<open>NaN\<close>, which is not at least, and not at
  most, any instant.
\<close>

theorem collection_descending_counterexample:
  "admitted rawGift
   \<and> mapAdmitted (engineAt 0) (clockAt ''2024-03-01T09:00:00.00'') [rawRent, rawGift]
       = Inr [rentRecord, giftRecord]
   \<and> timestamp giftRecord = JStr ''yesterday''
   \<and> newDate (engineAt 0) (timestamp giftRecord) = None
   \<and> map expenses (trace (engineAt 0) initialState
         [Fetch (clockAt ''2024-03-01T09:00:00.00'') (Resolved (JArr [rawRent, rawGift]))])
       = [[rentRecord, giftRecord]]
   \<and> \<not> list_all (\<lambda>s. descending (engineAt 0) (expenses s))
         (trace (engineAt 0) initialState
            [Fetch (clockAt ''2024-03-01T09:00:00.00'') (Resolved (JArr [rawRent, rawGift]))])
   \<and> \<not> (\<exists>ys. mset ys = mset [rentRecord, giftRecord] \<and> descending (engineAt 0) ys)"
proof -
  have a: "admitted rawGift"
    by code_simp
  have m: "mapAdmitted (engineAt 0) (clockAt ''2024-03-01T09:00:00.00'') [rawRent, rawGift]
       = Inr [rentRecord, giftRecord]"
    by code_simp
  have t: "timestamp giftRecord = JStr ''yesterday''"
    by (simp add: giftRecord_def)
  have n: "newDate (engineAt 0) (timestamp giftRecord) = None"
    by code_simp
  have nv: "\<not> validTs (engineAt 0) giftRecord"
    by (simp add: validTs_def n)
  have s: "arraySort (engineAt 0) [rentRecord, giftRecord] = [rentRecord, giftRecord]"
    using nv by (simp add: arraySort_def engineOrder_engineAt)
  have f: "map expenses (trace (engineAt 0) initialState
         [Fetch (clockAt ''2024-03-01T09:00:00.00'') (Resolved (JArr [rawRent, rawGift]))])
       = [[rentRecord, giftRecord]]"
    by (simp add: fetchExpenses_def fetchExpenses_try_def m s)
  have d: "\<not> descending (engineAt 0) [rentRecord, giftRecord]"
    using invalid_not_descending[of giftRecord "[rentRecord, giftRecord]" "engineAt 0"] nv by simp
  have l: "\<not> list_all (\<lambda>s. descending (engineAt 0) (expenses s))
         (trace (engineAt 0) initialState
            [Fetch (clockAt ''2024-03-01T09:00:00.00'') (Resolved (JArr [rawRent, rawGift]))])"
    using d by (simp add: fetchExpenses_def fetchExpenses_try_def m s)
  have e: "\<not> (\<exists>ys. mset ys = mset [rentRecord, giftRecord] \<and> descending (engineAt 0) ys)"
    using invalid_no_arrangement[of giftRecord "[rentRecord, giftRecord]" "engineAt 0"] nv by simp
  from a m t n f l e show ?thesis by simp
qed

text \<open>
  C2, as amended. Normalizing a record that the normalizer produced keeps its id, title,
  category, amount, timestamp and note, and replaces its date by the calendar date of the
  clock: the normalizer reads the date from \<open>expenseDate\<close>, a key that a canonical record
  does not have.
\<close>

theorem renormalize_keeps_all_but_date:
  assumes m: "mapExpense en d t e = Inr r" and n: "t \<noteq> []"
  shows "mapExpense en d' t' (asObject r) = Inr (r\<lparr>date := JStr (take 10 d')\<rparr>)"
proof -
  note f = mapExpense_Inr[OF m]
  have ts: "truthy (timestamp r)"
    using n by (simp add: f(5) truthy_jsOr)
  show ?thesis
    unfolding mapExpense_def getProp_asObject
    apply (simp add: jsOr_truthy[OF ts])
    apply (simp add: f(2,3,4,6) jsOr_idem amount_idem)
    done
qed

theorem renormalize_witness:
  "mapExpense (engineAt 0) ''2024-01-20T08:00:00.000Z'' ''2024-01-20T08:00:00.001Z'' rawRent
     = Inr rentRecord
   \<and> mapExpense (engineAt 0) ''2025-06-01T12:00:00.000Z'' ''2025-06-01T12:00:00.001Z''
        (asObject rentRecord)
      = Inr (rentRecord\<lparr>date := JStr (take 10 ''2025-06-01T12:00:00.000Z'')\<rparr>)"
  using renormalize_keeps_all_but_date[OF rent_normalized,
      of "''2025-06-01T12:00:00.000Z''" "''2025-06-01T12:00:00.001Z''"]
    rent_normalized by simp

text \<open>
  The claim as stated fails: the record of the rent, dated 2024-01-15, comes back from a
  second pass on 2025-06-01 with the date 2025-06-01.
\<close>

theorem renormalize_counterexample:
  "mapExpense (engineAt 0) ''2024-01-20T08:00:00.000Z'' ''2024-01-20T08:00:00.001Z'' rawRent
     = Inr rentRecord
   \<and> mapExpense (engineAt 0) ''2025-06-01T12:00:00.000Z'' ''2025-06-01T12:00:00.001Z''
        (asObject rentRecord) \<noteq> Inr rentRecord
   \<and> date rentRecord = JStr ''2024-01-15''
   \<and> map_sum id date
        (mapExpense (engineAt 0) ''2025-06-01T12:00:00.000Z'' ''2025-06-01T12:00:00.001Z''
           (asObject rentRecord))
      = Inr (JStr ''2025-06-01'')"
  by code_simp

text \<open>
  C3, as amended. The amount of a normalized record is a number and never \<open>NaN\<close>: it is
  \<open>Number\<close> of the raw amount, and zero where that is \<open>NaN\<close>; it can be negative or
  infinite. The forms pass on only amounts that are numbers above zero, and with such
  submitted amounts every record of the collection has, after every operation, an
  amount that is a number other than \<open>NaN\<close>.
\<close>

theorem amount_never_NaN:
  "(mapExpense en d t e = Inr r \<longrightarrow>
      (\<exists>n. amount r = JNum n \<and> n \<noteq> NaN
           \<and> n = (if toNumber en (getProp e ''amount'') = NaN then Fin 0
                  else toNumber en (getProp e ''amount''))))
   \<and> (handleSubmit en ti c a da nt = Some newExpense \<longrightarrow>
        (\<exists>q. getProp newExpense ''amount'' = JNum q \<and> q \<noteq> NaN \<and> \<not> leZero q))
   \<and> (handleSave en form = Some updated \<longrightarrow>
        (\<exists>q. getProp updated ''amount'' = JNum q \<and> q \<noteq> NaN \<and> \<not> leZero q))
   \<and> (list_all submittedChecked ops \<longrightarrow>
        list_all (\<lambda>s. list_all (\<lambda>e. numberNotNaN (amount e)) (expenses s))
          (trace en initialState ops))"
proof -
  have "mapExpense en d t e = Inr r \<longrightarrow>
      (\<exists>n. amount r = JNum n \<and> n \<noteq> NaN
           \<and> n = (if toNumber en (getProp e ''amount'') = NaN then Fin 0
                  else toNumber en (getProp e ''amount'')))"
    using mapExpense_Inr(4)[of en d t e r] by (auto simp: jsOr_def)
  moreover have "list_all submittedChecked ops \<longrightarrow>
        list_all (\<lambda>s. list_all (\<lambda>e. numberNotNaN (amount e)) (expenses s))
          (trace en initialState ops)"
    using trace_amounts[of initialState ops en] by (simp add: initialState_def)
  ultimately show ?thesis
    using handleSubmit_amount[of en ti c a da nt newExpense] handleSave_amount[of en form updated]
    by blast
qed

theorem amount_never_NaN_witness:
  "mapExpense (engineAt 0) ''2024-01-20T08:00:00.000Z'' ''2024-01-20T08:00:00.001Z'' rawRefund
     = Inr refundRecord
   \<and> (\<exists>n. amount refundRecord = JNum n \<and> n \<noteq> NaN
           \<and> n = (if toNumber (engineAt 0) (getProp rawRefund ''amount'') = NaN then Fin 0
                  else toNumber (engineAt 0) (getProp rawRefund ''amount'')))
   \<and> handleSubmit (engineAt 0) (JStr ''Lunch'') (JStr ''Food'') (JStr ''12.5'') (JStr ''2024-03-02'')
        (JStr ''team'') = Some submittedLunch
   \<and> handleSave (engineAt 0) formRent = Some editedRent
   \<and> list_all submittedChecked sampleRun
   \<and> list_all (\<lambda>s. list_all (\<lambda>e. numberNotNaN (amount e)) (expenses s))
        (trace (engineAt 0) initialState sampleRun)"
proof -
  have s: "handleSubmit (engineAt 0) (JStr ''Lunch'') (JStr ''Food'') (JStr ''12.5'') (JStr ''2024-03-02'')
        (JStr ''team'') = Some submittedLunch"
    by code_simp
  have v: "handleSave (engineAt 0) formRent = Some editedRent"
    by code_simp
  have c: "list_all submittedChecked sampleRun"
    by code_simp
  from amount_never_NaN[where en = "engineAt 0" and d = "''2024-01-20T08:00:00.000Z''"
      and t = "''2024-01-20T08:00:00.001Z''"
      and e = rawRefund and r = refundRecord and ti = "JStr ''Lunch''" and c = "JStr ''Food''"
      and a = "JStr ''12.5''" and da = "JStr ''2024-03-02''" and nt = "JStr ''team''"
      and newExpense = submittedLunch and form = formRent and updated = editedRent
      and ops = sampleRun]
    refund_normalized s v c
  show ?thesis by simp
qed

text \<open>
  The claim as stated fails: a raw record with an identifier and the amount -5 is
  normalized to a record with the amount -5.
\<close>

theorem amount_negative_counterexample:
  "admitted rawRefund
   \<and> mapExpense (engineAt 0) ''2024-01-20T08:00:00.000Z'' ''2024-01-20T08:00:00.001Z'' rawRefund
       = Inr refundRecord
   \<and> amount refundRecord = JNum (Fin (- 5))
   \<and> \<not> (\<exists>q. amount refundRecord = JNum (Fin q) \<and> 0 \<le> q)"
proof -
  have "admitted rawRefund" by code_simp
  moreover have "amount refundRecord = JNum (Fin (- 5))" by (simp add: refundRecord_def)
  ultimately show ?thesis using refund_normalized by simp
qed




text \<open>
  C5. A record passes the month filter if and only if the year and month of its date, read
  as a local calendar date, equal the selected key. The code reads the date as midnight
  UTC and takes the year and month of that instant in local time: five hours west of UTC
  a record dated 2024-02-01 fails the key 2024-02 and passes the key 2024-01.
\<close>

theorem month_filter_shifts_west_of_utc:
  "date groceriesRecord = JStr ''2024-02-01''
   \<and> monthPass (engineAt (- 18000000)) ''2024-02'' groceriesRecord = False
   \<and> monthPass (engineAt (- 18000000)) ''2024-01'' groceriesRecord = True
   \<and> monthPass (engineAt 0) ''2024-02'' groceriesRecord = True"
  by code_simp







text \<open>
  C8, as amended. For records whose category is a string and whose amount is a finite
  number, the category chart has one label for each trimmed category, a blank category
  counting as \<open>General\<close>, in the order in which the labels are first seen, and at the
  position of each label the sum of the amounts of the records with that label, added in
  the order of the records with each partial sum rounded to a double.
\<close>

theorem category_series:
  assumes "list_all textAndFinite xs"
  shows "categoryAgg en xs
           = Inr (firstSeen (map groupLabel xs),
                  map (groupTotal xs) (firstSeen (map groupLabel xs)))"
  using categoryLoop_series[OF assms] by (simp add: categoryAgg_def comp_def)

theorem category_series_witness:
  "list_all textAndFinite chartRecords
   \<and> map category chartRecords
       = [JStr ''Transport'', JStr ''Food'', JStr '''', JStr '' Food '', JStr ''  '',
          JStr ''Snacks'', JStr ''Snacks '']
   \<and> map amount chartRecords
       = [JNum (Fin 3), JNum (Fin (25 / 2)), JNum (Fin 950), JNum (Fin (217 / 4)), JNum (Fin 900),
          JNum (Fin (3602879701896397 / 36028797018963968)),
          JNum (Fin (3602879701896397 / 18014398509481984))]
   \<and> categoryAgg (engineAt 0) chartRecords
       = Inr ([''Transport'', ''Food'', ''General'', ''Snacks''],
              [Fin 3, Fin (267 / 4), Fin 1850, Fin (1351079888211149 / 4503599627370496)])"
proof -
  have h: "list_all textAndFinite chartRecords"
    by code_simp
  have c: "map category chartRecords
       = [JStr ''Transport'', JStr ''Food'', JStr '''', JStr '' Food '', JStr ''  '',
          JStr ''Snacks'', JStr ''Snacks '']"
    by code_simp
  have a: "map amount chartRecords
       = [JNum (Fin 3), JNum (Fin (25 / 2)), JNum (Fin 950), JNum (Fin (217 / 4)), JNum (Fin 900),
          JNum (Fin (3602879701896397 / 36028797018963968)),
          JNum (Fin (3602879701896397 / 18014398509481984))]"
    by code_simp
  have l: "firstSeen (map groupLabel chartRecords) = [''Transport'', ''Food'', ''General'', ''Snacks'']"
    by code_simp
  have t: "map (groupTotal chartRecords) [''Transport'', ''Food'', ''General'', ''Snacks'']
       = [Fin 3, Fin (267 / 4), Fin 1850, Fin (1351079888211149 / 4503599627370496)]"
    by code_simp
  from category_series[OF h, of "engineAt 0"] h c a l t show ?thesis by simp
qed

text \<open>
  The claim as stated fails. The normalizer keeps a truthy category that is not a string:
  a raw record with the category 5 is loaded with that category and passes the filters,
  and the aggregation throws at the call of \<open>trim\<close> on it, so the chart has no labels and
  no values. And the value of a label is not always the sum of the amounts: of three
  records of one category with the amounts \<open>Infinity\<close>, \<open>-Infinity\<close> and 5, whose sum is
  \<open>NaN\<close>, the value is 5, because a running total that is \<open>NaN\<close> is read as zero.
\<close>

theorem category_series_counterexample:
  "getProp rawParking ''category'' = JNum (Fin 5)
   \<and> mappedExpenses (engineAt 0) ''response.data'' (clockAt ''2024-03-01T09:00:00.00'')
        (JArr [rawParking])
       = Inr [parkingRecord]
   \<and> category parkingRecord = JNum (Fin 5)
   \<and> filteredExpenses (engineAt 0) [] [] [parkingRecord] = Inr [parkingRecord]
   \<and> categoryAgg (engineAt 0) [parkingRecord]
       = Inl (typeError (engineAt 0) ''(e.category || 'General').trim'')
   \<and> map amount infiniteRecords = [JNum PInf, JNum NInf, JNum (Fin 5)]
   \<and> map category infiniteRecords = [JStr ''General'', JStr ''General'', JStr ''General'']
   \<and> jsAdd (jsAdd (jsAdd (Fin 0) PInf) NInf) (Fin 5) = NaN
   \<and> categoryAgg (engineAt 0) infiniteRecords = Inr ([''General''], [Fin 5])"
  by code_simp

text \<open>
  C9, as amended. When the response of a create request carries an identifier, the record
  put into the collection takes its id from the response (\<open>id\<close>, else \<open>expenseId\<close>); its
  title, category and note from the response where they are truthy there, and else from
  the submitted values; its amount from \<open>Number\<close> of the response's amount unless that is
  \<open>NaN\<close> or zero, and else from the submitted amount; its date from the response's
  \<open>expenseDate\<close> up to the first \<open>T\<close> where that is truthy, and else from the submitted
  date; its timestamp from the response's \<open>timestamp\<close>, else \<open>timeStamp\<close>, else the clock.
\<close>

theorem add_with_identifier_fields:
  assumes "hasIdentifier v" and "addMapped en (clock 0) newExpense v = Inr m"
  shows "handleAdd en clock st newExpense (Resolved v) l
           = st\<lparr> expenses := arraySort en (m # expenses st), error := None \<rparr>
    \<and> mset (arraySort en (m # expenses st)) = add_mset m (mset (expenses st))
    \<and> id_f m = (if truthy (getProp v ''id'') then getProp v ''id'' else getProp v ''expenseId'')
    \<and> title m = (if truthy (getProp v ''title'') then getProp v ''title''
                 else getProp newExpense ''title'')
    \<and> category m = (if truthy (getProp v ''category'') then getProp v ''category''
                    else getProp newExpense ''category'')
    \<and> amount m = (if toNumber en (getProp v ''amount'') = NaN \<or> toNumber en (getProp v ''amount'') = Fin 0
                  then getProp newExpense ''amount'' else JNum (toNumber en (getProp v ''amount'')))
    \<and> (if truthy (getProp v ''expenseDate'')
        then splitT0 en ''response.data.expenseDate.split'' (getProp v ''expenseDate'') = Inr (date m)
        else date m = getProp newExpense ''date'')
    \<and> timestamp m = (if truthy (getProp v ''timestamp'') then getProp v ''timestamp''
                     else if truthy (getProp v ''timeStamp'') then getProp v ''timeStamp''
                     else JStr (clock 0))
    \<and> note_f m = (if truthy (getProp v ''note'') then getProp v ''note''
                  else getProp newExpense ''note'')"
proof -
  note f = addMapped_Inr[OF assms(2)]
  have "handleAdd en clock st newExpense (Resolved v) l
           = st\<lparr> expenses := arraySort en (m # expenses st), error := None \<rparr>"
    using assms by (simp add: handleAdd_def handleAdd_try_def)
  moreover have "if truthy (getProp v ''expenseDate'')
        then splitT0 en ''response.data.expenseDate.split'' (getProp v ''expenseDate'') = Inr (date m)
        else date m = getProp newExpense ''date''"
    using f(7) by (simp split: if_splits)
  ultimately show ?thesis
    using f(1-6) by (simp add: jsOr_def mset_arraySort)
qed

theorem add_with_identifier_witness:
  "hasIdentifier responseZero
   \<and> addMapped (engineAt 0) (clockAt ''2024-03-03T08:00:00.00'' 0) submittedLunch responseZero
       = Inr lunchRecord
   \<and> handleAdd (engineAt 0) (clockAt ''2024-03-03T08:00:00.00'') loadedState submittedLunch
        (Resolved responseZero) (Rejected ''unused'')
       = loadedState\<lparr> expenses := arraySort (engineAt 0) (lunchRecord # expenses loadedState),
           error := None \<rparr>
   \<and> title lunchRecord = getProp responseZero ''title''
   \<and> category lunchRecord = getProp submittedLunch ''category''
   \<and> timestamp lunchRecord = getProp responseZero ''timestamp''"
proof -
  have t: "title lunchRecord = getProp responseZero ''title''"
      "category lunchRecord = getProp submittedLunch ''category''"
      "timestamp lunchRecord = getProp responseZero ''timestamp''"
    by code_simp+
  from add_with_identifier_fields[where clock = "clockAt ''2024-03-03T08:00:00.00''"
      and st = loadedState and l = "Rejected ''unused''", OF responseZero_identified lunch_mapped]
    responseZero_identified lunch_mapped t
  show ?thesis by simp
qed

text \<open>
  The claim as stated fails: a response that includes the amount 0 and the note \<open>''\<close>
  yields a record with the submitted amount and the submitted note.
\<close>

theorem add_with_identifier_counterexample:
  "hasIdentifier responseZero
   \<and> getProp responseZero ''amount'' = JNum (Fin 0)
   \<and> getProp responseZero ''note'' = JStr ''''
   \<and> addMapped (engineAt 0) (clockAt ''2024-03-03T08:00:00.00'' 0) submittedLunch responseZero
       = Inr lunchRecord
   \<and> amount lunchRecord = JNum (Fin (25 / 2))
   \<and> note_f lunchRecord = JStr ''team''"
  by code_simp

text \<open>
  C10. With the empty string as the selected month the month filter is not applied: every
  record passes it, with or without a date, and the visible records are those the search
  filter alone leaves.
\<close>

theorem month_filter_skipped:
  "monthFiltered en [] xs = xs
   \<and> filteredExpenses en flt [] xs = searchFiltered en (toLowerCase (trim flt)) xs"
  by (simp add: monthFiltered_def filteredExpenses_def)

end
